theory Spec2Isabelle
  imports Main
begin

section \<open>SyferText utilities: a shallow embedding of \<open>syfertext/utils.py\<close>\<close>

text \<open>
  Python exceptions are values. \<open>AssertionError\<close> carries the fixed part of the
  message of the failed \<open>assert\<close> (the interpreter runs with assertions enabled);
  \<open>Raised\<close> is an exception coming out of an external collaborator (the worker's
  transport, the \<open>dill\<close> codec), named by a string.
\<close>

datatype error =
    AssertionError string
  | IndexError
  | KeyError
  | ValueError
  | Raised string

subsection \<open>\<open>normalize_slice\<close> (lines 29-69)\<close>

text \<open>
  Python integers are unbounded: \<open>int\<close>. An argument that may be \<open>None\<close> is an
  \<open>int option\<close>. The \<open>assert\<close> on \<open>step\<close> is the first branch.
\<close>

definition normalize_slice ::
  "int \<Rightarrow> int option \<Rightarrow> int option \<Rightarrow> int option \<Rightarrow> error + (int \<times> int)" where
  "normalize_slice length' start stop step =
     (if \<not> (step = None \<or> step = Some 1)
      then Inl (AssertionError ''Stepped slices with steps greater than one are not supported'')
      else
        let start1 = (case start of
                        None \<Rightarrow> 0
                      | Some s \<Rightarrow> if s < 0 then s + length' else s);
            start2 = min length' (max 0 start1);
            stop1 = (case stop of
                       None \<Rightarrow> length'
                     | Some e \<Rightarrow> if e < 0 then e + length' else e);
            stop2 = min length' (max start2 stop1)
        in Inr (start2, stop2))"

subsection \<open>\<open>create_state_query\<close> (lines 123-139) and the string operations it meets\<close>

text \<open>The f-string \<open>f"{pipeline_name}:{state_name}"\<close>.\<close>

definition create_state_query :: "string \<Rightarrow> string \<Rightarrow> string" where
  "create_state_query pipeline_name state_name = pipeline_name @ '':'' @ state_name"

text \<open>
  \<open>str.split(sep)\<close> for a one-character separator: the pieces between the
  occurrences of \<open>sep\<close>, empty pieces kept, so the result is never empty.
\<close>

fun str_split :: "char \<Rightarrow> string \<Rightarrow> string list" where
  "str_split sep [] = [[]]"
| "str_split sep (c # cs) =
     (if c = sep then [] # str_split sep cs
      else (let r = str_split sep cs in (c # hd r) # tl r))"

text \<open>\<open>str.replace(old, new)\<close> for one-character \<open>old\<close> and \<open>new\<close>.\<close>

definition str_replace :: "char \<Rightarrow> char \<Rightarrow> string \<Rightarrow> string" where
  "str_replace old new s = map (\<lambda>c. if c = old then new else c) s"


subsection \<open>The collaborators of \<open>search_resource\<close>\<close>

text \<open>
  The local worker (\<open>syft\<close>'s \<open>BaseWorker\<close>) is external: the code uses its methods
  \<open>search\<close> and \<open>request_search\<close>, each returning a list or raising, and its
  dictionary \<open>_known_workers\<close>, which Python iterates in insertion order: an
  association list from worker id to worker.
\<close>

record ('obj, 'loc) base_worker =
  search :: "string \<Rightarrow> error + 'obj list"
  known_workers :: "(string \<times> 'loc) list"
  request_search :: "string \<Rightarrow> 'loc \<Rightarrow> error + 'obj list"

text \<open>
  The file system as \<open>os.path\<close> sees it: a path names nothing, a directory, or a
  regular file with its bytes. \<open>home\<close> is \<open>Path.home()\<close>, \<open>dill_load\<close> the codec
  applied to the bytes of an opened file.
\<close>

datatype fs_entry = Dir | File string

record 'obj host =
  home :: string
  fs :: "string \<Rightarrow> fs_entry option"
  dill_load :: "string \<Rightarrow> error + 'obj"

text \<open>Every call to a collaborator is recorded, in the order the code makes it.\<close>

datatype fs_event =
    Exists string
  | IsFile string
  | GetSize string
  | Open string
  | DillLoad string

datatype 'loc event =
    Search string
  | Cache fs_event
  | RequestSearch string 'loc

text \<open>\<open>os.path.join\<close> of \<open>posixpath\<close>: an absolute component restarts the path.\<close>

definition path_join2 :: "string \<Rightarrow> string \<Rightarrow> string" where
  "path_join2 path b =
     (if b \<noteq> [] \<and> hd b = CHR ''/'' then b
      else if path = [] \<or> last path = CHR ''/'' then path @ b
      else path @ ''/'' @ b)"

definition os_path_join :: "string \<Rightarrow> string list \<Rightarrow> string" where
  "os_path_join a p = foldl path_join2 a p"

definition ambiguous_result :: string where
  "ambiguous_result =
     ''Ambiguous result: multiple objects matching the search query were found on worker''"

subsection \<open>\<open>search_resource\<close> (lines 142-215)\<close>

text \<open>
  Lines 174-195, the local storage. The result \<open>Inr None\<close> means that the code falls
  through to the loop over the known workers, \<open>Inr (Some st)\<close> that it returns the
  loaded object. \<open>os.path.isfile\<close> holds of a \<open>File\<close> entry only, and
  \<open>os.path.getsize\<close>, called after it by the short-circuit \<open>and\<close>, is the number of
  bytes.
\<close>

definition load_cache :: "'obj host \<Rightarrow> string \<Rightarrow> fs_event list \<times> (error + 'obj option)" where
  "load_cache h query =
     (let data_path0 = os_path_join (home h) [''SyferText'', ''cache''];
          tokens = str_split (CHR '':'') query;
          file_name = str_replace (CHR '':'') (CHR ''-'') query
      in case tokens of
           [] \<Rightarrow> ([], Inl IndexError)
         | token0 # _ \<Rightarrow>
             let data_path = os_path_join data_path0 [token0] in
             if fs h data_path \<noteq> None then
               let target = ''/'' @ file_name @ ''.pkl'' in
               (case fs h (data_path @ target) of
                  Some (File bytes) \<Rightarrow>
                    if length bytes > 0 then
                      ([Exists data_path, IsFile (data_path @ target),
                        GetSize (data_path @ target), Open (data_path @ target),
                        DillLoad (data_path @ target)],
                       (case dill_load h bytes of
                          Inl e \<Rightarrow> Inl e
                        | Inr simplified_state \<Rightarrow> Inr (Some simplified_state)))
                    else
                      ([Exists data_path, IsFile (data_path @ target),
                        GetSize (data_path @ target)], Inr None)
                | _ \<Rightarrow> ([Exists data_path, IsFile (data_path @ target)], Inr None))
             else ([Exists data_path], Inr None))"

text \<open>
  Lines 199-215, the loop over \<open>_known_workers.items()\<close>. Leaving the loop without a
  \<open>return\<close> ends the function, which then returns \<open>None\<close>. No \<open>try\<close> surrounds
  \<open>request_search\<close>: what it raises leaves the function.
\<close>

fun search_known_workers ::
  "('obj, 'loc) base_worker \<Rightarrow> string \<Rightarrow> (string \<times> 'loc) list
     \<Rightarrow> 'loc event list \<times> (error + 'obj option)" where
  "search_known_workers w query [] = ([], Inr None)"
| "search_known_workers w query ((worker_id, location) # rest) =
     (case request_search w query location of
        Inl e \<Rightarrow> ([RequestSearch query location], Inl e)
      | Inr result \<Rightarrow>
          if result \<noteq> [] then
            (if length result = 1
             then ([RequestSearch query location], Inr (Some (result ! 0)))
             else ([RequestSearch query location], Inl (AssertionError ambiguous_result)))
          else
            (case search_known_workers w query rest of
               (trace, r) \<Rightarrow> (RequestSearch query location # trace, r)))"

text \<open>The whole function: the trace of collaborator calls and the outcome.\<close>

definition search_resource ::
  "'obj host \<Rightarrow> ('obj, 'loc) base_worker \<Rightarrow> string
     \<Rightarrow> 'loc event list \<times> (error + 'obj option)" where
  "search_resource h local_worker query =
     (case search local_worker query of
        Inl e \<Rightarrow> ([Search query], Inl e)
      | Inr result \<Rightarrow>
          if result \<noteq> [] then
            (if length result = 1
             then ([Search query], Inr (Some (result ! 0)))
             else ([Search query], Inl (AssertionError ambiguous_result)))
          else
            (case load_cache h query of
               (trace1, Inl e) \<Rightarrow> (Search query # map Cache trace1, Inl e)
             | (trace1, Inr (Some simplified_state)) \<Rightarrow>
                 (Search query # map Cache trace1, Inr (Some simplified_state))
             | (trace1, Inr None) \<Rightarrow>
                 (case search_known_workers local_worker query (known_workers local_worker) of
                    (trace2, r) \<Rightarrow> (Search query # map Cache trace1 @ trace2, r))))"

text \<open>The path of the cache file that \<open>load_cache\<close> looks at for a query.\<close>

definition cache_file :: "'obj host \<Rightarrow> string \<Rightarrow> string" where
  "cache_file h query =
     os_path_join (os_path_join (home h) [''SyferText'', ''cache''])
       [hd (str_split (CHR '':'') query)]
     @ ''/'' @ str_replace (CHR '':'') (CHR ''-'') query @ ''.pkl''"


subsection \<open>\<open>create_mpc_config\<close> (lines 239-301)\<close>

text \<open>
  A Python \<open>dict\<close> keeps insertion order: an association list. \<open>d[k] = v\<close> replaces
  the value of a key that is present, in place, and appends a new key; \<open>d[k]\<close>
  raises \<open>KeyError\<close> for a key that is absent.
\<close>

fun dict_set :: "('k \<times> 'v) list \<Rightarrow> 'k \<Rightarrow> 'v \<Rightarrow> ('k \<times> 'v) list" where
  "dict_set [] k v = [(k, v)]"
| "dict_set ((k', v') # d) k v =
     (if k' = k then (k, v) # d else (k', v') # dict_set d k v)"

definition dict_get :: "('k \<times> 'v) list \<Rightarrow> 'k \<Rightarrow> error + 'v" where
  "dict_get d k = (case map_of d k of None \<Rightarrow> Inl KeyError | Some v \<Rightarrow> Inr v)"

text \<open>The decimal digits of a number, as \<open>f"{i}"\<close> writes them.\<close>

function str_nat :: "nat \<Rightarrow> string" where
  "str_nat n =
     (if n < 10 then [''0123456789'' ! n]
      else str_nat (n div 10) @ [''0123456789'' ! (n mod 10)])"
  by pat_completeness auto
termination
  by (relation "measure id") auto

declare str_nat.simps [simp del]

text \<open>
  \<open>np.random.choice\<close> first turns the list of ids into a \<open>numpy\<close> array of
  fixed-width unicode strings. Such an array pads every string with NUL characters to
  the common width, and reading an element back strips all trailing NULs: an id that
  ends in NUL comes back shorter.
\<close>

definition np_str :: "string \<Rightarrow> string" where
  "np_str s = rev (dropWhile (\<lambda>c. c = CHR 0x00) (rev s))"

text \<open>
  \<open>np.random.choice(a, size, replace=False)\<close>: \<open>size\<close> elements of the array at
  different positions, in the order drawn; \<open>ValueError\<close> when \<open>a\<close> has fewer than
  \<open>size\<close> elements. The random source is explicit: \<open>rng k\<close> is the \<open>k\<close>-th raw
  number, and a draw takes the element at that position (modulo the number of
  elements left) out of the pool. Every sequence of positions can be drawn.
\<close>

fun draw :: "(nat \<Rightarrow> nat) \<Rightarrow> nat \<Rightarrow> 'a list \<Rightarrow> nat \<Rightarrow> 'a list" where
  "draw rng k pool 0 = []"
| "draw rng k pool (Suc n) =
     (let i = rng k mod length pool
      in pool ! i # draw rng (Suc k) (take i pool @ drop (Suc i) pool) n)"

definition random_choice :: "(nat \<Rightarrow> nat) \<Rightarrow> string list \<Rightarrow> nat \<Rightarrow> error + string list" where
  "random_choice rng a size' =
     (if length a < size' then Inl ValueError
      else Inr (map np_str (draw rng 0 a size')))"

text \<open>Lines 267-271: all known workers except \<open>me\<close>, in the order of the registry.\<close>

definition known_workers_except_me :: "('obj, 'loc) base_worker \<Rightarrow> (string \<times> 'loc) list" where
  "known_workers_except_me worker =
     filter (\<lambda>(worker_id, w). worker_id \<noteq> ''me'') (known_workers worker)"

text \<open>
  The loop \<open>for i, node_id in enumerate(ids): mpc_config[f"node_{i}"] =
  known_workers[node_id]\<close> of lines 283-284 and 298-299, from index \<open>i\<close> on.
\<close>

fun assign_nodes ::
  "(string \<times> 'loc) list \<Rightarrow> nat \<Rightarrow> string list \<Rightarrow> (string \<times> 'loc) list
     \<Rightarrow> error + (string \<times> 'loc) list" where
  "assign_nodes known i [] mpc_config = Inr mpc_config"
| "assign_nodes known i (node_id # ids) mpc_config =
     (case dict_get known node_id of
        Inl e \<Rightarrow> Inl e
      | Inr w \<Rightarrow> assign_nodes known (Suc i) ids (dict_set mpc_config (''node_'' @ str_nat i) w))"

text \<open>
  The function returns \<open>None\<close> or the dictionary \<open>mpc_config\<close>: an option. The three
  \<open>if\<close> statements run one after the other, as in the source.
\<close>

definition create_mpc_config ::
  "(nat \<Rightarrow> nat) \<Rightarrow> ('obj, 'loc) base_worker \<Rightarrow> error + (string \<times> 'loc) list option" where
  "create_mpc_config rng worker =
     (let known = known_workers_except_me worker in
      if length known = 1 then Inr None
      else
        (case (if length known = 2 then
                 (case assign_nodes known 0 (map fst known) [] of
                    Inl e \<Rightarrow> Inl e
                  | Inr mpc_config \<Rightarrow>
                      (case dict_get mpc_config ''node_1'' of
                         Inl e \<Rightarrow> Inl e
                       | Inr w \<Rightarrow> Inr (dict_set mpc_config ''node_2'' w)))
               else Inr []) of
           Inl e \<Rightarrow> Inl e
         | Inr mpc_config \<Rightarrow>
             if 3 \<le> length known then
               (case random_choice rng (map fst known) 3 of
                  Inl e \<Rightarrow> Inl e
                | Inr selected_node_ids \<Rightarrow>
                    (case assign_nodes known 0 selected_node_ids mpc_config of
                       Inl e \<Rightarrow> Inl e
                     | Inr mpc_config' \<Rightarrow> Inr (Some mpc_config')))
             else Inr (Some mpc_config)))"

subsection \<open>Example collaborators\<close>

text \<open>
  A host with an empty file system, and a local worker that holds nothing and knows
  three peers: \<open>alice\<close> at location 1 and \<open>carol\<close> at location 3 hold nothing, \<open>bob\<close>
  at location 2 holds one object, 42.
\<close>

definition empty_host :: "nat host" where
  "empty_host = \<lparr>home = ''/home/u'', fs = (\<lambda>p. None), dill_load = (\<lambda>b. Inl (Raised ''UnpicklingError''))\<rparr>"

definition worker_abc :: "(nat, nat) base_worker" where
  "worker_abc =
     \<lparr>search = (\<lambda>q. Inr []),
      known_workers = [(''alice'', 1), (''bob'', 2), (''carol'', 3)],
      request_search = (\<lambda>q l. if l = 2 then Inr [42] else Inr [])\<rparr>"

text \<open>
  A network in which \<open>alice\<close> holds nothing, the transport to \<open>bob\<close> fails and
  \<open>carol\<close> holds one object, 42.
\<close>

definition worker_bob_down :: "(nat, nat) base_worker" where
  "worker_bob_down =
     \<lparr>search = (\<lambda>q. Inr []),
      known_workers = [(''alice'', 1), (''bob'', 2), (''carol'', 3)],
      request_search =
        (\<lambda>q l. if l = 2 then Inl (Raised ''ConnectionError'')
                else if l = 3 then Inr [42] else Inr [])\<rparr>"

text \<open>Local workers whose own registry holds one object, and two, under every tag.\<close>

definition worker_local_one :: "(nat, nat) base_worker" where
  "worker_local_one = worker_abc\<lparr>search := (\<lambda>q. Inr [7])\<rparr>"

definition worker_local_two :: "(nat, nat) base_worker" where
  "worker_local_two = worker_abc\<lparr>search := (\<lambda>q. Inr [7, 8])\<rparr>"

text \<open>A host whose cache directory for \<open>modelA\<close> exists and holds an empty file.\<close>

definition host_empty_file :: "nat host" where
  "host_empty_file =
     empty_host\<lparr>fs := (\<lambda>p. if p = ''/home/u/SyferText/cache/modelA'' then Some Dir
                            else if p = ''/home/u/SyferText/cache/modelA/modelA-vocab.pkl''
                            then Some (File []) else None)\<rparr>"


definition worker_two_peers :: "(nat, nat) base_worker" where
  "worker_two_peers = worker_abc\<lparr>known_workers := [(''me'', 0), (''alice'', 1), (''bob'', 2)]\<rparr>"

definition worker_four_peers :: "(nat, nat) base_worker" where
  "worker_four_peers =
     worker_abc\<lparr>known_workers :=
       [(''alice'', 11), (''me'', 10), (''bob'', 12), (''carol'', 13), (''dave'', 14)]\<rparr>"




definition always_one :: "nat \<Rightarrow> nat" where
  "always_one k = 1"

section \<open>Properties\<close>

subsection \<open>Slices\<close>

text \<open>
  C10. For every length \<open>\<ge> 0\<close>, all \<open>start\<close> and \<open>stop\<close> (an integer or \<open>None\<close>) and
  \<open>step\<close> either \<open>None\<close> or 1, \<open>normalize_slice\<close> returns a pair \<open>(start', stop')\<close>
  with \<open>0 \<le> start' \<le> stop' \<le> length\<close>.
\<close>

theorem normalize_slice_bounds:
  assumes "0 \<le> length'" and "step = None \<or> step = Some 1"
  shows "\<exists>start' stop'. normalize_slice length' start stop step = Inr (start', stop')
           \<and> 0 \<le> start' \<and> start' \<le> stop' \<and> stop' \<le> length'"
  using assms by (auto simp: normalize_slice_def Let_def split: option.splits)

theorem normalize_slice_bounds_witness:
  "(0::int) \<le> 6 \<and> ((None::int option) = None \<or> (None::int option) = Some 1)
   \<and> normalize_slice 6 (Some (- 4)) (Some (- 1)) None = Inr (2, 5)
   \<and> (\<exists>start' stop'. normalize_slice 6 (Some (- 4)) (Some (- 1)) None = Inr (start', stop')
           \<and> 0 \<le> start' \<and> start' \<le> stop' \<and> stop' \<le> 6)"
  using normalize_slice_bounds [of 6 None "Some (- 4)" "Some (- 1)"]
  by (simp add: normalize_slice_def)

subsection \<open>Queries\<close>

lemma str_split_not_Nil: "str_split sep s \<noteq> []"
  by (cases s) (simp_all add: Let_def)

lemma str_split_no_sep: "sep \<notin> set s \<Longrightarrow> str_split sep s = [s]"
  by (induction s) (auto simp: Let_def)

lemma str_split_append:
  "sep \<notin> set s \<Longrightarrow> str_split sep (s @ sep # t) = s # str_split sep t"
  by (induction s) (auto simp: Let_def)

text \<open>
  C9. For all \<open>ns\<close> and \<open>name\<close> without the separator \<open>:\<close>, splitting the query built
  from them on the separator gives back exactly \<open>ns\<close> and \<open>name\<close>.
\<close>

theorem create_state_query_roundtrip:
  assumes "CHR '':'' \<notin> set ns" and "CHR '':'' \<notin> set name"
  shows "str_split (CHR '':'') (create_state_query ns name) = [ns, name]"
  using assms by (simp add: create_state_query_def str_split_append str_split_no_sep)

theorem create_state_query_roundtrip_witness:
  "CHR '':'' \<notin> set ''modelA'' \<and> CHR '':'' \<notin> set ''vocab''
   \<and> create_state_query ''modelA'' ''vocab'' = ''modelA:vocab''
   \<and> str_split (CHR '':'') (create_state_query ''modelA'' ''vocab'') = [''modelA'', ''vocab'']"
  using create_state_query_roundtrip [of "''modelA''" "''vocab''"]
  by (simp add: create_state_query_def)


subsection \<open>Resolution\<close>

lemma search_known_workers_skip:
  "\<forall>(worker_id, location) \<in> set pre. request_search w query location = Inr [] \<Longrightarrow>
   search_known_workers w query (pre @ rest) =
     (map (\<lambda>(worker_id, location). RequestSearch query location) pre
        @ fst (search_known_workers w query rest),
      snd (search_known_workers w query rest))"
  by (induction pre) (auto split: prod.splits)

lemma search_resource_network:
  assumes "search w query = Inr []" and "snd (load_cache h query) = Inr None"
  shows "search_resource h w query =
           (Search query # map Cache (fst (load_cache h query))
              @ fst (search_known_workers w query (known_workers w)),
            snd (search_known_workers w query (known_workers w)))"
proof -
  obtain trace1 where lc: "load_cache h query = (trace1, Inr None)"
    using assms(2) by (cases "load_cache h query") auto
  obtain trace2 r where sk: "search_known_workers w query (known_workers w) = (trace2, r)"
    by (cases "search_known_workers w query (known_workers w)") auto
  show ?thesis
    by (simp add: search_resource_def assms(1) lc sk)
qed

lemma load_cache_probes_cache_file:
  "fs h (cache_file h query) = None \<or> fs h (cache_file h query) = Some (File []) \<Longrightarrow>
   snd (load_cache h query) = Inr None \<and> DillLoad (cache_file h query) \<notin> set (fst (load_cache h query))"
  using str_split_not_Nil [of "CHR '':''" query]
  by (auto simp: load_cache_def cache_file_def Let_def os_path_join_def
           split: list.splits option.splits fs_entry.splits)

text \<open>
  C1. If the local worker's registry returns exactly one match, the resolution returns
  that object, and the only collaborator call it makes is the local search: the cache
  is not consulted and no peer is asked.
\<close>

theorem search_resource_local_hit:
  assumes "search w query = Inr [obj]"
  shows "search_resource h w query = ([Search query], Inr (Some obj))"
  using assms by (simp add: search_resource_def)

theorem search_resource_local_hit_witness:
  "search worker_local_one ''modelA:vocab'' = Inr [7]
   \<and> search_resource empty_host worker_local_one ''modelA:vocab''
       = ([Search ''modelA:vocab''], Inr (Some 7))"
  using search_resource_local_hit [of worker_local_one "''modelA:vocab''" 7 empty_host]
  by (simp add: worker_local_one_def)

text \<open>
  C4. If the local registry returns more than one match, the resolution fails with the
  assertion error "Ambiguous result", and the only collaborator call it makes is the
  local search: no cache read, no remote search, no match picked.
\<close>

theorem search_resource_local_ambiguous:
  assumes "search w query = Inr result" and "1 < length result"
  shows "search_resource h w query = ([Search query], Inl (AssertionError ambiguous_result))"
  using assms by (auto simp: search_resource_def)

theorem search_resource_local_ambiguous_witness:
  "search worker_local_two ''modelA:vocab'' = Inr [7, 8] \<and> 1 < length [7::nat, 8]
   \<and> search_resource empty_host worker_local_two ''modelA:vocab''
       = ([Search ''modelA:vocab''], Inl (AssertionError ambiguous_result))"
  using search_resource_local_ambiguous
          [of worker_local_two "''modelA:vocab''" "[7, 8]" empty_host]
  by (simp add: worker_local_two_def)

text \<open>
  C7. When the loop over the known workers is reached, the peers before \<open>location\<close>
  return no match and \<open>location\<close> returns exactly one, the resolution returns that
  match, and the remote searches it issues are those to the peers up to \<open>location\<close>, in
  order: none to a peer after it.
\<close>

theorem search_resource_first_found:
  assumes "search w query = Inr []" and "snd (load_cache h query) = Inr None"
    and "known_workers w = pre @ (worker_id, location) # post"
    and "\<forall>(i, l) \<in> set pre. request_search w query l = Inr []"
    and "request_search w query location = Inr [object_ptr]"
  shows "search_resource h w query =
           (Search query # map Cache (fst (load_cache h query))
              @ map (\<lambda>(i, l). RequestSearch query l) pre @ [RequestSearch query location],
            Inr (Some object_ptr))"
  using assms
  by (simp add: search_resource_network search_known_workers_skip)

theorem search_resource_first_found_witness:
  "search worker_abc ''modelA:vocab'' = Inr []
   \<and> snd (load_cache empty_host ''modelA:vocab'') = Inr None
   \<and> known_workers worker_abc = [(''alice'', 1)] @ (''bob'', 2) # [(''carol'', 3)]
   \<and> request_search worker_abc ''modelA:vocab'' 1 = Inr []
   \<and> request_search worker_abc ''modelA:vocab'' 2 = Inr [42]
   \<and> search_resource empty_host worker_abc ''modelA:vocab''
       = ([Search ''modelA:vocab'', Cache (Exists ''/home/u/SyferText/cache/modelA''),
           RequestSearch ''modelA:vocab'' 1, RequestSearch ''modelA:vocab'' 2],
          Inr (Some 42))"
  using search_resource_first_found
          [of worker_abc "''modelA:vocab''" empty_host "[(''alice'', 1)]" "''bob''" 2
              "[(''carol'', 3)]" 42]
  by (simp add: worker_abc_def empty_host_def load_cache_def os_path_join_def path_join2_def
                str_replace_def Let_def)

lemma search_known_workers_first:
  "RequestSearch query location
     \<in> set (fst (search_known_workers w query ((worker_id, location) # rest)))"
  by (auto split: sum.splits prod.splits)

lemma cache_file_host_empty_file:
  "cache_file host_empty_file ''modelA:vocab'' = ''/home/u/SyferText/cache/modelA/modelA-vocab.pkl''"
  by (simp add: cache_file_def host_empty_file_def empty_host_def os_path_join_def
                path_join2_def str_replace_def Let_def)

lemma load_cache_host_empty_file:
  "load_cache host_empty_file ''modelA:vocab'' =
     ([Exists ''/home/u/SyferText/cache/modelA'',
       IsFile ''/home/u/SyferText/cache/modelA/modelA-vocab.pkl'',
       GetSize ''/home/u/SyferText/cache/modelA/modelA-vocab.pkl''], Inr None)"
  by (simp add: load_cache_def host_empty_file_def empty_host_def os_path_join_def
                path_join2_def str_replace_def Let_def)

lemma load_cache_empty_host:
  "load_cache empty_host ''modelA:vocab'' = ([Exists ''/home/u/SyferText/cache/modelA''], Inr None)"
  by (simp add: load_cache_def empty_host_def os_path_join_def path_join2_def
                str_replace_def Let_def)

text \<open>
  C6. If the local search finds nothing and the cache file of the query is missing or
  has zero length, the cache lookup is a miss and not an error, and the resolution goes
  on with the loop over the known workers: its outcome is the outcome of that loop,
  and the first known worker, when there is one, receives a remote search request.
\<close>

theorem search_resource_cache_miss:
  assumes "search w query = Inr []"
    and "fs h (cache_file h query) = None \<or> fs h (cache_file h query) = Some (File [])"
  shows "snd (load_cache h query) = Inr None
         \<and> search_resource h w query =
             (Search query # map Cache (fst (load_cache h query))
                @ fst (search_known_workers w query (known_workers w)),
              snd (search_known_workers w query (known_workers w)))
         \<and> (\<forall>worker_id location rest.
               known_workers w = (worker_id, location) # rest \<longrightarrow>
               RequestSearch query location \<in> set (fst (search_resource h w query)))"
proof -
  have miss: "snd (load_cache h query) = Inr None"
    using load_cache_probes_cache_file [OF assms(2)] by simp
  have net: "search_resource h w query =
             (Search query # map Cache (fst (load_cache h query))
                @ fst (search_known_workers w query (known_workers w)),
              snd (search_known_workers w query (known_workers w)))"
    using assms(1) miss by (rule search_resource_network)
  have "RequestSearch query location \<in> set (fst (search_resource h w query))"
    if "known_workers w = (worker_id, location) # rest" for worker_id location rest
    using search_known_workers_first [of query location w worker_id rest] that
    by (simp add: net)
  with miss net show ?thesis by blast
qed

theorem search_resource_cache_miss_witness:
  "search worker_abc ''modelA:vocab'' = Inr []
   \<and> fs host_empty_file (cache_file host_empty_file ''modelA:vocab'') = Some (File [])
   \<and> known_workers worker_abc = (''alice'', 1) # [(''bob'', 2), (''carol'', 3)]
   \<and> snd (load_cache host_empty_file ''modelA:vocab'') = (Inr None :: error + nat option)
   \<and> RequestSearch ''modelA:vocab'' 1
        \<in> set (fst (search_resource host_empty_file worker_abc ''modelA:vocab''))
   \<and> snd (search_resource host_empty_file worker_abc ''modelA:vocab'') = Inr (Some 42)"
proof -
  have s: "search worker_abc ''modelA:vocab'' = Inr []"
    by (simp add: worker_abc_def)
  have f: "fs host_empty_file (cache_file host_empty_file ''modelA:vocab'') = Some (File [])"
    by (simp add: cache_file_host_empty_file) (simp add: host_empty_file_def)
  have k: "known_workers worker_abc = (''alice'', 1) # [(''bob'', 2), (''carol'', 3)]"
    by (simp add: worker_abc_def)
  have r: "snd (search_known_workers worker_abc ''modelA:vocab'' (known_workers worker_abc))
             = Inr (Some 42)"
    by (simp add: worker_abc_def)
  note t = search_resource_cache_miss [OF s disjI2, of host_empty_file, OF f]
  from t have a: "snd (load_cache host_empty_file ''modelA:vocab'') = (Inr None :: error + nat option)"
    by (rule conjunct1)
  from t have b: "search_resource host_empty_file worker_abc ''modelA:vocab'' =
             (Search ''modelA:vocab'' # map Cache (fst (load_cache host_empty_file ''modelA:vocab''))
                @ fst (search_known_workers worker_abc ''modelA:vocab'' (known_workers worker_abc)),
              snd (search_known_workers worker_abc ''modelA:vocab'' (known_workers worker_abc)))"
    by (rule conjunct1 [OF conjunct2])
  from t have c: "\<forall>worker_id location rest.
               known_workers worker_abc = (worker_id, location) # rest \<longrightarrow>
               RequestSearch ''modelA:vocab'' location
                 \<in> set (fst (search_resource host_empty_file worker_abc ''modelA:vocab''))"
    by (rule conjunct2 [OF conjunct2])
  from c k have d: "RequestSearch ''modelA:vocab'' 1
        \<in> set (fst (search_resource host_empty_file worker_abc ''modelA:vocab''))"
    by blast
  have e: "snd (search_resource host_empty_file worker_abc ''modelA:vocab'') = Inr (Some 42)"
    by (simp only: b snd_conv r)
  from s f k a d e show ?thesis by (intro conjI)
qed

text \<open>
  C5, as the claim states it, fails: with \<open>alice\<close> holding nothing, the transport to
  \<open>bob\<close> failing and \<open>carol\<close> holding the object, the resolution ends with the
  failure of \<open>bob\<close> and \<open>carol\<close> is never asked.
\<close>

theorem search_resource_transport_failure_counterexample:
  "request_search worker_bob_down ''modelA:vocab'' 2 = Inl (Raised ''ConnectionError'')
   \<and> request_search worker_bob_down ''modelA:vocab'' 3 = Inr [42]
   \<and> search_resource empty_host worker_bob_down ''modelA:vocab''
       = ([Search ''modelA:vocab'', Cache (Exists ''/home/u/SyferText/cache/modelA''),
           RequestSearch ''modelA:vocab'' 1, RequestSearch ''modelA:vocab'' 2],
          Inl (Raised ''ConnectionError''))"
  by (simp add: search_resource_def load_cache_empty_host worker_bob_down_def)

text \<open>
  C5, amended. When the loop over the known workers is reached, the peers before
  \<open>location\<close> return no match and the search on \<open>location\<close> raises, the resolution
  ends with that exception: the failure is not taken as a non-match, and no peer after
  \<open>location\<close> receives a request.
\<close>

theorem search_resource_transport_failure:
  assumes "search w query = Inr []" and "snd (load_cache h query) = Inr None"
    and "known_workers w = pre @ (worker_id, location) # post"
    and "\<forall>(i, l) \<in> set pre. request_search w query l = Inr []"
    and "request_search w query location = Inl e"
  shows "search_resource h w query =
           (Search query # map Cache (fst (load_cache h query))
              @ map (\<lambda>(i, l). RequestSearch query l) pre @ [RequestSearch query location],
            Inl e)"
  using assms
  by (simp add: search_resource_network search_known_workers_skip)

theorem search_resource_transport_failure_witness:
  "search worker_bob_down ''modelA:vocab'' = Inr []
   \<and> snd (load_cache empty_host ''modelA:vocab'') = (Inr None :: error + nat option)
   \<and> known_workers worker_bob_down = [(''alice'', 1)] @ (''bob'', 2) # [(''carol'', 3)]
   \<and> request_search worker_bob_down ''modelA:vocab'' 1 = Inr []
   \<and> request_search worker_bob_down ''modelA:vocab'' 2 = Inl (Raised ''ConnectionError'')
   \<and> search_resource empty_host worker_bob_down ''modelA:vocab''
       = ([Search ''modelA:vocab'', Cache (Exists ''/home/u/SyferText/cache/modelA''),
           RequestSearch ''modelA:vocab'' 1, RequestSearch ''modelA:vocab'' 2],
          Inl (Raised ''ConnectionError''))"
  using search_resource_transport_failure
          [of worker_bob_down "''modelA:vocab''" empty_host "[(''alice'', 1)]" "''bob''" 2
              "[(''carol'', 3)]" "Raised ''ConnectionError''"]
  by (simp add: worker_bob_down_def load_cache_empty_host)

subsection \<open>Selection of the participants\<close>

lemma str_nat_0: "str_nat 0 = ''0''"
  by (subst str_nat.simps) simp

lemma str_nat_1: "str_nat (Suc 0) = ''1''"
  by (subst str_nat.simps) simp

lemma str_nat_2: "str_nat (Suc (Suc 0)) = ''2''"
  by (subst str_nat.simps) simp

lemma dict_get_mem: "k \<in> fst ` set d \<Longrightarrow> \<exists>v. dict_get d k = Inr v \<and> (k, v) \<in> set d"
  by (cases "map_of d k") (auto simp: dict_get_def map_of_eq_None_iff dest: map_of_SomeD)


lemma assign_nodes_three:
  assumes "dict_get known i0 = Inr w0" and "dict_get known i1 = Inr w1"
    and "dict_get known i2 = Inr w2"
  shows "assign_nodes known 0 [i0, i1, i2] [] =
           Inr [(''node_0'', w0), (''node_1'', w1), (''node_2'', w2)]"
  using assms by (simp add: str_nat_0 str_nat_1 str_nat_2)

lemma draw_length_subset:
  "n \<le> length pool \<Longrightarrow>
   length (draw rng k pool n) = n \<and> set (draw rng k pool n) \<subseteq> set pool"
proof (induction n arbitrary: k pool)
  case 0
  show ?case by simp
next
  case (Suc n)
  let ?i = "rng k mod length pool"
  let ?rest = "take ?i pool @ drop (Suc ?i) pool"
  have "0 < length pool" using Suc.prems by linarith
  then have i: "?i < length pool" by (rule mod_less_divisor)
  have len: "n \<le> length ?rest" using Suc.prems i by simp
  have sub: "set ?rest \<subseteq> set pool"
    using set_take_subset [of ?i pool] set_drop_subset [of "Suc ?i" pool] by auto
  have mem: "pool ! ?i \<in> set pool" using i by simp
  from Suc.IH [OF len, of "Suc k"] sub mem show ?case
    by (auto simp: Let_def)
qed

lemma draw_distinct:
  "n \<le> length pool \<Longrightarrow> distinct pool \<Longrightarrow> distinct (draw rng k pool n)"
proof (induction n arbitrary: k pool)
  case 0
  show ?case by simp
next
  case (Suc n)
  let ?i = "rng k mod length pool"
  let ?rest = "take ?i pool @ drop (Suc ?i) pool"
  have "0 < length pool" using Suc.prems(1) by linarith
  then have i: "?i < length pool" by (rule mod_less_divisor)
  have "distinct (take ?i pool @ pool ! ?i # drop (Suc ?i) pool)"
    unfolding id_take_nth_drop [OF i, symmetric] by (rule Suc.prems(2))
  then have dr: "distinct ?rest" and notin: "pool ! ?i \<notin> set ?rest"
    by auto
  have len: "n \<le> length ?rest" using Suc.prems(1) i by simp
  from draw_length_subset [OF len, of rng "Suc k"]
  have "set (draw rng (Suc k) ?rest n) \<subseteq> set ?rest" by simp
  with notin Suc.IH [OF len dr, of "Suc k"] show ?case
    by (auto simp: Let_def)
qed

lemma known_workers_except_me_not_me:
  "(worker_id, w) \<in> set (known_workers_except_me worker) \<Longrightarrow>
   worker_id \<noteq> ''me'' \<and> (worker_id, w) \<in> set (known_workers worker)"
  by (auto simp: known_workers_except_me_def)

text \<open>What the function returns for two eligible workers, whatever the random source.\<close>

lemma create_mpc_config_two:
  assumes "known_workers_except_me worker = [(a, wa), (b, wb)]" and "a \<noteq> b"
  shows "create_mpc_config rng worker =
           Inr (Some [(''node_0'', wa), (''node_1'', wb), (''node_2'', wb)])"
  using assms
  by (simp add: create_mpc_config_def Let_def dict_get_def str_nat_0 str_nat_1)

text \<open>
  What the function returns for three or more eligible workers none of whose ids ends
  in NUL: the workers registered under three different eligible ids, under the keys
  \<open>node_0\<close>, \<open>node_1\<close> and \<open>node_2\<close>.
\<close>

lemma create_mpc_config_three:
  assumes "3 \<le> length (known_workers_except_me worker)"
    and "distinct (map fst (known_workers worker))"
    and "\<forall>i \<in> fst ` set (known_workers_except_me worker). np_str i = i"
  shows "\<exists>i0 i1 i2 w0 w1 w2.
           distinct [i0, i1, i2]
           \<and> {(i0, w0), (i1, w1), (i2, w2)} \<subseteq> set (known_workers_except_me worker)
           \<and> create_mpc_config rng worker =
               Inr (Some [(''node_0'', w0), (''node_1'', w1), (''node_2'', w2)])"
proof -
  let ?known = "known_workers_except_me worker"
  let ?sel = "draw rng 0 (map fst ?known) 3"
  have len3: "3 \<le> length (map fst ?known)" using assms(1) by simp
  have dk: "distinct (map fst ?known)"
    using assms(2) by (simp add: known_workers_except_me_def distinct_map_filter)
  from draw_length_subset [OF len3, of rng 0]
  have l: "length ?sel = 3" and sub: "set ?sel \<subseteq> fst ` set ?known" by simp_all
  from draw_distinct [OF len3 dk, of rng 0] have ds: "distinct ?sel" .
  have "np_str i = i" if "i \<in> set ?sel" for i
    using that sub assms(3) by blast
  then have idm: "map np_str ?sel = ?sel"
    by (rule map_idI)
  from l obtain i0 i1 i2 where sel: "?sel = [i0, i1, i2]"
    by (auto simp: numeral_3_eq_3 length_Suc_conv)
  from sub sel have i0: "i0 \<in> fst ` set ?known" and i1: "i1 \<in> fst ` set ?known"
    and i2: "i2 \<in> fst ` set ?known"
    by simp_all
  from dict_get_mem [OF i0] dict_get_mem [OF i1] dict_get_mem [OF i2]
  obtain w0 w1 w2 where
    g: "dict_get ?known i0 = Inr w0" "dict_get ?known i1 = Inr w1" "dict_get ?known i2 = Inr w2"
    and m: "(i0, w0) \<in> set ?known" "(i1, w1) \<in> set ?known" "(i2, w2) \<in> set ?known"
    by blast
  have "create_mpc_config rng worker =
          Inr (Some [(''node_0'', w0), (''node_1'', w1), (''node_2'', w2)])"
    using assms(1) sel idm assign_nodes_three [OF g]
    by (simp add: create_mpc_config_def Let_def random_choice_def)
  with ds sel m show ?thesis by auto
qed










lemma known_workers_except_me_two_peers:
  "known_workers_except_me worker_two_peers = [(''alice'', 1), (''bob'', 2)]"
  by (simp add: known_workers_except_me_def worker_two_peers_def)

text \<open>
  C2. The claim: with exactly two eligible workers the configuration maps \<open>node_0\<close>
  and \<open>node_1\<close> to them and holds the key \<open>crypto_provider\<close> with the value of
  \<open>node_1\<close>. The code, at the registry \<open>me\<close>, \<open>alice\<close>, \<open>bob\<close>: the two eligible
  workers become \<open>node_0\<close> and \<open>node_1\<close>, and the worker of \<open>node_1\<close> is stored a
  second time under the key \<open>node_2\<close>; reading the key \<open>crypto_provider\<close>, which the
  docstring of the function promises, raises \<open>KeyError\<close>.
\<close>

theorem create_mpc_config_two_peers_keys:
  "create_mpc_config (\<lambda>k. 0) worker_two_peers
     = Inr (Some [(''node_0'', 1), (''node_1'', 2), (''node_2'', 2)])
   \<and> dict_get [(''node_0'', 1::nat), (''node_1'', 2), (''node_2'', 2)] ''crypto_provider''
     = Inl KeyError"
proof -
  have "''alice'' \<noteq> ''bob''" by simp
  with known_workers_except_me_two_peers
  have "create_mpc_config (\<lambda>k. 0) worker_two_peers
          = Inr (Some [(''node_0'', 1), (''node_1'', 2), (''node_2'', 2)])"
    by (rule create_mpc_config_two)
  moreover
  have "dict_get [(''node_0'', 1::nat), (''node_1'', 2), (''node_2'', 2)] ''crypto_provider''
          = Inl KeyError"
    by (simp add: dict_get_def)
  ultimately show ?thesis by (rule conjI)
qed

lemma known_workers_except_me_four_peers:
  "known_workers_except_me worker_four_peers =
     [(''alice'', 11), (''bob'', 12), (''carol'', 13), (''dave'', 14)]"
  by (simp add: known_workers_except_me_def worker_four_peers_def)

lemma draw_four_peers:
  "draw always_one 0 [''alice'', ''bob'', ''carol'', ''dave''] (Suc (Suc (Suc 0)))
     = [''bob'', ''carol'', ''dave'']"
  by (simp add: Let_def always_one_def)

lemma dict_get_four_peers:
  "dict_get [(''alice'', 11::nat), (''bob'', 12), (''carol'', 13), (''dave'', 14)] ''bob'' = Inr 12"
  "dict_get [(''alice'', 11::nat), (''bob'', 12), (''carol'', 13), (''dave'', 14)] ''carol'' = Inr 13"
  "dict_get [(''alice'', 11::nat), (''bob'', 12), (''carol'', 13), (''dave'', 14)] ''dave'' = Inr 14"
  by (simp_all add: dict_get_def)

text \<open>
  C3. The claim: with three or more eligible workers the configuration holds three
  different eligible workers under \<open>node_0\<close>, \<open>node_1\<close> and \<open>crypto_provider\<close>. The
  code, at the registry \<open>alice\<close>, \<open>me\<close>, \<open>bob\<close>, \<open>carol\<close>, \<open>dave\<close> with the random
  source that always gives 1: the workers drawn are those of \<open>bob\<close>, \<open>carol\<close> and
  \<open>dave\<close>, three different eligible ones, stored under \<open>node_0\<close>, \<open>node_1\<close> and
  \<open>node_2\<close>; reading the key \<open>crypto_provider\<close> raises \<open>KeyError\<close>.
\<close>

theorem create_mpc_config_four_peers_keys:
  "create_mpc_config always_one worker_four_peers
     = Inr (Some [(''node_0'', 12), (''node_1'', 13), (''node_2'', 14)])
   \<and> dict_get [(''node_0'', 12::nat), (''node_1'', 13), (''node_2'', 14)] ''crypto_provider''
     = Inl KeyError"
proof -
  have sel: "random_choice always_one [''alice'', ''bob'', ''carol'', ''dave''] 3
               = Inr [''bob'', ''carol'', ''dave'']"
    by (simp add: random_choice_def numeral_3_eq_3 draw_four_peers np_str_def del: draw.simps)
  have "create_mpc_config always_one worker_four_peers
          = Inr (Some [(''node_0'', 12), (''node_1'', 13), (''node_2'', 14)])"
    by (simp add: create_mpc_config_def known_workers_except_me_four_peers sel
                  assign_nodes_three [OF dict_get_four_peers]
             del: assign_nodes.simps)
  moreover
  have "dict_get [(''node_0'', 12::nat), (''node_1'', 13), (''node_2'', 14)] ''crypto_provider''
          = Inl KeyError"
    by (simp add: dict_get_def)
  ultimately show ?thesis by (rule conjI)
qed

end
